theory Spec2Isabelle
  imports Main
begin

section \<open>Python values\<close>

text \<open>
  A record field holds a primitive Python value. The program only ever asks three things
  of such a value: whether it \<^verbatim>\<open>is None\<close>, whether it is truthy, and what
  \<^verbatim>\<open>str(value)\<close> is. \<open>VObj s\<close> stands for an object of a class that defines
  neither \<^verbatim>\<open>__bool__\<close> nor \<^verbatim>\<open>__len__\<close> (a \<^verbatim>\<open>date\<close>, a
  \<^verbatim>\<open>datetime\<close>, an \<^verbatim>\<open>ObjectId\<close>): it is always truthy, and \<open>s\<close> is the
  text \<^verbatim>\<open>str\<close> gives for it. Floating-point values are not modelled.
\<close>

datatype pyval =
    VNone
  | VBool bool
  | VInt int
  | VStr string
  | VObj string

text \<open>
  A Python \<^verbatim>\<open>dict\<close> with string keys, in insertion order. A lookup finds the first
  pair with the key; the dictionaries the program builds never hold a key twice.
\<close>

type_synonym 'v dict = "(string \<times> 'v) list"

text \<open>JSON-shaped Python objects: request payloads and decoded response bodies.\<close>

datatype pyobj =
    Leaf pyval
  | PList "pyobj list"
  | PDict "(string \<times> pyobj) list"

text \<open>\<^verbatim>\<open>key in d\<close>\<close>

definition dict_contains :: "'v dict \<Rightarrow> string \<Rightarrow> bool" where
  "dict_contains d k = (map_of d k \<noteq> None)"

text \<open>\<^verbatim>\<open>d.get(key)\<close> on a record: \<^verbatim>\<open>None\<close> when the key is missing.\<close>

definition dict_get :: "pyval dict \<Rightarrow> string \<Rightarrow> pyval" where
  "dict_get d k = (case map_of d k of None \<Rightarrow> VNone | Some v \<Rightarrow> v)"

text \<open>
  \<^verbatim>\<open>d[key] = value\<close>: an existing key keeps its position, a new key goes to the end.
\<close>

fun dict_set :: "string \<Rightarrow> 'v \<Rightarrow> 'v dict \<Rightarrow> 'v dict" where
  "dict_set k v [] = [(k, v)]"
| "dict_set k v ((k', v') # d) =
     (if k' = k then (k, v) # d else (k', v') # dict_set k v d)"

text \<open>\<^verbatim>\<open>d.update(other)\<close>\<close>

fun dict_update :: "'v dict \<Rightarrow> 'v dict \<Rightarrow> 'v dict" where
  "dict_update d [] = d"
| "dict_update d ((k, v) # other) = dict_update (dict_set k v d) other"

text \<open>Truthiness: what \<^verbatim>\<open>if value:\<close> and \<^verbatim>\<open>not value\<close> test.\<close>

fun truthy :: "pyval \<Rightarrow> bool" where
  "truthy VNone = False"
| "truthy (VBool b) = b"
| "truthy (VInt i) = (i \<noteq> 0)"
| "truthy (VStr s) = (s \<noteq> [])"
| "truthy (VObj s) = True"

fun obj_truthy :: "pyobj \<Rightarrow> bool" where
  "obj_truthy (Leaf v) = truthy v"
| "obj_truthy (PList xs) = (xs \<noteq> [])"
| "obj_truthy (PDict kvs) = (kvs \<noteq> [])"

text \<open>Decimal digits of a natural number, as \<^verbatim>\<open>str\<close> prints an \<^verbatim>\<open>int\<close>.\<close>

definition digit_char :: "nat \<Rightarrow> char" where
  "digit_char d = char_of (48 + d)"

function string_of_nat :: "nat \<Rightarrow> string" where
  "string_of_nat n =
     (if n < 10 then [digit_char n]
      else string_of_nat (n div 10) @ [digit_char (n mod 10)])"
  by pat_completeness auto
termination
  by (relation "measure id") auto

declare string_of_nat.simps [simp del]

definition string_of_int :: "int \<Rightarrow> string" where
  "string_of_int i =
     (if i < 0 then CHR ''-'' # string_of_nat (nat (- i)) else string_of_nat (nat i))"

text \<open>\<^verbatim>\<open>str(value)\<close>\<close>

fun py_str :: "pyval \<Rightarrow> string" where
  "py_str VNone = ''None''"
| "py_str (VBool b) = (if b then ''True'' else ''False'')"
| "py_str (VInt i) = string_of_int i"
| "py_str (VStr s) = s"
| "py_str (VObj s) = s"

section \<open>Property formatting\<close>

text \<open>
  The table \<^verbatim>\<open>property_mapping\<close> of \<^verbatim>\<open>_format_properties\<close>, in the order
  \<^verbatim>\<open>.items()\<close> walks it: Notion property, then record field and property type.
\<close>

definition property_mapping :: "(string \<times> string \<times> string) list" where
  "property_mapping =
     [(''Name'', ''name'', ''title''),
      (''UID'', ''uid'', ''rich_text''),
      (''Status'', ''status'', ''select''),
      (''Reviewer Name'', ''reviewer_name'', ''rich_text''),
      (''Review Date'', ''review_date'', ''date''),
      (''Next Follow Up'', ''next_follow_up'', ''date''),
      (''Date Added'', ''date_added'', ''date''),
      (''Platform'', ''platform'', ''select''),
      (''Socials'', ''socials'', ''rich_text'')]"

text \<open>\<^verbatim>\<open>[{"text": {"content": str(value)}}]\<close>\<close>

definition text_content :: "pyval \<Rightarrow> pyobj" where
  "text_content v =
     PList [PDict [(''text'', PDict [(''content'', Leaf (VStr (py_str v)))])]]"

text \<open>
  One pass of the loop of \<^verbatim>\<open>_format_properties\<close>: a value that is \<^verbatim>\<open>None\<close>
  is skipped (\<^verbatim>\<open>continue\<close>); a date that is falsy matches no branch and leaves
  \<open>properties\<close> as it is.
\<close>

definition format_entry ::
  "pyval dict \<Rightarrow> pyobj dict \<Rightarrow> string \<times> string \<times> string \<Rightarrow> pyobj dict" where
  "format_entry data properties entry =
     (case entry of (notion_prop, data_key, prop_type) \<Rightarrow>
        let v = dict_get data data_key in
        if v = VNone then properties
        else if prop_type = ''title'' then
          dict_set notion_prop (PDict [(''title'', text_content v)]) properties
        else if prop_type = ''rich_text'' then
          dict_set notion_prop (PDict [(''rich_text'', text_content v)]) properties
        else if prop_type = ''select'' then
          dict_set notion_prop
            (PDict [(''select'', PDict [(''name'', Leaf (VStr (py_str v)))])]) properties
        else if prop_type = ''date'' \<and> truthy v then
          dict_set notion_prop
            (PDict [(''date'', PDict [(''start'', Leaf (VStr (py_str v)))])]) properties
        else properties)"

fun format_loop ::
  "pyval dict \<Rightarrow> pyobj dict \<Rightarrow> (string \<times> string \<times> string) list \<Rightarrow> pyobj dict" where
  "format_loop data properties [] = properties"
| "format_loop data properties (entry # rest) =
     format_loop data (format_entry data properties entry) rest"

definition format_properties :: "pyval dict \<Rightarrow> pyobj dict" where
  "format_properties data = format_loop data [] property_mapping"

section \<open>The update payload\<close>

text \<open>The list \<^verbatim>\<open>update_fields\<close> of \<^verbatim>\<open>update_page\<close>.\<close>

definition update_fields :: "string list" where
  "update_fields =
     [''status'', ''platform'', ''socials'', ''reviewer_name'',
      ''review_date'', ''next_follow_up'']"

text \<open>
  The loop of \<^verbatim>\<open>update_page\<close>: a field that is in the record is formatted on
  its own, as the one-field record \<^verbatim>\<open>{field: data[field]}\<close>, and merged in.
\<close>

fun update_loop :: "pyval dict \<Rightarrow> pyobj dict \<Rightarrow> string list \<Rightarrow> pyobj dict" where
  "update_loop data properties [] = properties"
| "update_loop data properties (field # rest) =
     update_loop data
       (case map_of data field of
          None \<Rightarrow> properties
        | Some v \<Rightarrow> dict_update properties (format_properties [(field, v)]))
       rest"

definition update_properties :: "pyval dict \<Rightarrow> pyobj dict" where
  "update_properties data = update_loop data [] update_fields"

section \<open>Exceptions, logging, HTTP\<close>

text \<open>
  An exception is its class, as far as the \<^verbatim>\<open>except\<close> clauses of the program tell
  classes apart, and the text \<^verbatim>\<open>str(e)\<close> gives. Every class here derives from
  \<^verbatim>\<open>Exception\<close>; \<open>RequestException\<close> stands for
  \<^verbatim>\<open>requests.exceptions.RequestException\<close> and its subclasses.
\<close>

datatype exn_class =
    RequestException
  | ImportError
  | ValueError
  | AttributeError
  | KeyError
  | TypeError
  | IndexError
  | OtherException

datatype exn = Exn (exn_class: exn_class) (exn_str: string)

text \<open>
  A logged message is the list of the parts of its f-string. \<open>Fmt x\<close> is the text Python
  substitutes for an object that is not a primitive value (the \<^verbatim>\<open>repr\<close> of a
  \<^verbatim>\<open>dict\<close> or a \<^verbatim>\<open>list\<close>), which the model does not compute.
\<close>

datatype level = INFO | WARNING | ERROR

datatype fpart = Lit string | Fmt pyobj

type_synonym log_entry = "level \<times> fpart list"

fun py_format :: "pyobj \<Rightarrow> fpart" where
  "py_format (Leaf v) = Lit (py_str v)"
| "py_format (PList xs) = Fmt (PList xs)"
| "py_format (PDict kvs) = Fmt (PDict kvs)"

definition obj_of_record :: "pyval dict \<Rightarrow> pyobj" where
  "obj_of_record r = PDict (map (\<lambda>(k, v). (k, Leaf v)) r)"

text \<open>
  A \<^verbatim>\<open>requests.Response\<close>: the status code, the text of the
  \<^verbatim>\<open>HTTPError\<close> that \<^verbatim>\<open>raise_for_status\<close> builds from it, and what
  \<^verbatim>\<open>.json()\<close> does (\<open>Inl\<close>: it raises).
\<close>

record response =
  status_code :: nat
  http_error_str :: string
  json_result :: "exn + pyobj"

text \<open>
  What one call of \<^verbatim>\<open>requests.post\<close> or \<^verbatim>\<open>requests.patch\<close> does: it
  raises an exception (whose \<^verbatim>\<open>.response\<close> is a response or \<^verbatim>\<open>None\<close>),
  or it returns a response.
\<close>

datatype http_outcome = Raises exn "response option" | Returns response

datatype http_method = POST | PATCH

text \<open>
  The path under \<^verbatim>\<open>base_url\<close>: \<^verbatim>\<open>/pages\<close>,
  \<^verbatim>\<open>/databases/{database_id}/query\<close>, \<^verbatim>\<open>/pages/{page_id}\<close>.
\<close>

datatype resource = Pages | DatabaseQuery string | Page pyobj

record http_call =
  call_method :: http_method
  call_base :: string
  call_resource :: resource
  call_headers :: "string dict"
  call_json :: pyobj

datatype connector =
    PostgreSQLConnector
  | MySQLConnector
  | MongoDBConnector
  | SQLiteConnector

text \<open>
  What the program reads from outside itself: the environment variables; for a module
  name, the text of the \<^verbatim>\<open>ImportError\<close> that importing it raises, if it does;
  what connecting to a backend and running its query gives; and what the remote service
  answers to a call, given the calls made before it.
\<close>

record platform =
  getenv :: "string \<Rightarrow> string option"
  import_error :: "string \<Rightarrow> string option"
  db_rows :: "connector \<Rightarrow> exn + pyval dict list"
  http :: "http_call list \<Rightarrow> http_call \<Rightarrow> http_outcome"

text \<open>What the program leaves behind: the HTTP calls made, the log, standard output.\<close>

record world =
  calls :: "http_call list"
  log :: "log_entry list"
  stdout :: "string list"

definition logger :: "level \<Rightarrow> fpart list \<Rightarrow> world \<Rightarrow> world" where
  "logger lv msg w = w\<lparr>log := log w @ [(lv, msg)]\<rparr>"

definition print :: "string \<Rightarrow> world \<Rightarrow> world" where
  "print line w = w\<lparr>stdout := stdout w @ [line]\<rparr>"

definition requests_call :: "platform \<Rightarrow> world \<Rightarrow> http_call \<Rightarrow> http_outcome \<times> world" where
  "requests_call p w c = (http p (calls w) c, w\<lparr>calls := calls w @ [c]\<rparr>)"

text \<open>\<^verbatim>\<open>response.raise_for_status()\<close>: the exception it raises, if any.\<close>

definition raise_for_status :: "response \<Rightarrow> exn option" where
  "raise_for_status r =
     (if 400 \<le> status_code r \<and> status_code r < 600
      then Some (Exn RequestException (http_error_str r)) else None)"

text \<open>\<^verbatim>\<open>os.getenv(name, default)\<close>\<close>

definition getenv_default :: "platform \<Rightarrow> string \<Rightarrow> string \<Rightarrow> string" where
  "getenv_default p name dflt = (case getenv p name of None \<Rightarrow> dflt | Some s \<Rightarrow> s)"

text \<open>\<^verbatim>\<open>a or b\<close> on values that are a string or \<^verbatim>\<open>None\<close>.\<close>

definition str_or :: "string option \<Rightarrow> string option \<Rightarrow> string option" where
  "str_or a b = (case a of None \<Rightarrow> b | Some s \<Rightarrow> if s \<noteq> [] then Some s else b)"

section \<open>Operations on decoded JSON\<close>

fun type_name :: "pyval \<Rightarrow> string" where
  "type_name VNone = ''NoneType''"
| "type_name (VBool b) = ''bool''"
| "type_name (VInt i) = ''int''"
| "type_name (VStr s) = ''str''"
| "type_name (VObj s) = ''object''"

text \<open>A text between single quotes.\<close>

definition quoted :: "string \<Rightarrow> string" where
  "quoted s = [CHR 0x27] @ s @ [CHR 0x27]"

text \<open>\<^verbatim>\<open>obj.get(key, default)\<close>: only a \<^verbatim>\<open>dict\<close> has the method.\<close>

fun py_get :: "pyobj \<Rightarrow> string \<Rightarrow> pyobj \<Rightarrow> exn + pyobj" where
  "py_get (PDict kvs) key dflt =
     Inr (case map_of kvs key of None \<Rightarrow> dflt | Some x \<Rightarrow> x)"
| "py_get (PList xs) key dflt =
     Inl (Exn AttributeError
       (quoted ''list'' @ '' object has no attribute '' @ quoted ''get''))"
| "py_get (Leaf v) key dflt =
     Inl (Exn AttributeError
       (quoted (type_name v) @ '' object has no attribute '' @ quoted ''get''))"

text \<open>
  \<^verbatim>\<open>obj[0]\<close>. The keys of a decoded JSON object are strings, so \<open>0\<close> is none of
  them. Of a string only the first character is taken, as one \<^typ>\<open>char\<close>.
\<close>

fun py_first :: "pyobj \<Rightarrow> exn + pyobj" where
  "py_first (PList []) = Inl (Exn IndexError ''list index out of range'')"
| "py_first (PList (x # xs)) = Inr x"
| "py_first (PDict kvs) = Inl (Exn KeyError ''0'')"
| "py_first (Leaf (VStr s)) =
     (if s = [] then Inl (Exn IndexError ''string index out of range'')
      else Inr (Leaf (VStr (take 1 s))))"
| "py_first (Leaf v) =
     Inl (Exn TypeError (quoted (type_name v) @ '' object is not subscriptable''))"

text \<open>\<^verbatim>\<open>obj[key]\<close> for a string key.\<close>

fun py_item :: "pyobj \<Rightarrow> string \<Rightarrow> exn + pyobj" where
  "py_item (PDict kvs) key =
     (case map_of kvs key of
        None \<Rightarrow> Inl (Exn KeyError (quoted key))
      | Some x \<Rightarrow> Inr x)"
| "py_item (PList xs) key =
     Inl (Exn TypeError ''list indices must be integers or slices, not str'')"
| "py_item (Leaf (VStr s)) key =
     Inl (Exn TypeError (''string indices must be integers, not '' @ quoted ''str''))"
| "py_item (Leaf v) key =
     Inl (Exn TypeError (quoted (type_name v) @ '' object is not subscriptable''))"

section \<open>The Notion client\<close>

record client =
  notion_token :: string
  database_id :: string
  headers :: "string dict"
  base_url :: string

text \<open>\<^verbatim>\<open>not x\<close> for a value that is a string or \<^verbatim>\<open>None\<close>.\<close>

definition str_falsy :: "string option \<Rightarrow> bool" where
  "str_falsy x = (case x of None \<Rightarrow> True | Some s \<Rightarrow> s = [])"

text \<open>\<^verbatim>\<open>NotionDatabaseSync.__init__\<close>: the client, or the \<^verbatim>\<open>ValueError\<close>.\<close>

definition NotionDatabaseSync_init ::
  "platform \<Rightarrow> string option \<Rightarrow> string option \<Rightarrow> exn + client" where
  "NotionDatabaseSync_init p token_arg database_arg =
     (let token = str_or token_arg (getenv p ''NOTION_TOKEN'');
          database = str_or database_arg (getenv p ''NOTION_DATABASE_ID'')
      in if str_falsy token \<or> str_falsy database then
           Inl (Exn ValueError
             (''NOTION_TOKEN and NOTION_DATABASE_ID must be provided '' @
              ''either as arguments or environment variables''))
         else
           Inr \<lparr>notion_token = the token,
                database_id = the database,
                headers =
                  [(''Authorization'', ''Bearer '' @ the token),
                   (''Content-Type'', ''application/json''),
                   (''Notion-Version'', ''2022-06-28'')],
                base_url = ''https://api.notion.com/v1''\<rparr>)"

text \<open>
  The \<^verbatim>\<open>except RequestException\<close> clause of \<^verbatim>\<open>create_page\<close>. Another
  exception passes through untouched. For a request exception the clause logs it; when
  the exception carries a response, it then logs the decoded body, and if decoding
  raises, that exception is the one that leaves the function.
\<close>

definition create_failed :: "exn \<Rightarrow> response option \<Rightarrow> world \<Rightarrow> (exn + pyobj) \<times> world" where
  "create_failed e r w =
     (if exn_class e = RequestException then
        let w1 = logger ERROR [Lit ''Error creating page: '', Lit (exn_str e)] w in
        (case r of
           None \<Rightarrow> (Inl e, w1)
         | Some resp \<Rightarrow>
             (case json_result resp of
                Inl e2 \<Rightarrow> (Inl e2, w1)
              | Inr body \<Rightarrow> (Inl e, logger ERROR [Lit ''Response: '', py_format body] w1)))
      else (Inl e, w))"

definition create_page ::
  "platform \<Rightarrow> client \<Rightarrow> world \<Rightarrow> pyval dict \<Rightarrow> (exn + pyobj) \<times> world" where
  "create_page p c w data =
     (let properties = format_properties data;
          payload = PDict [(''parent'', PDict [(''database_id'', Leaf (VStr (database_id c)))]),
                           (''properties'', PDict properties)];
          (out, w1) = requests_call p w
             \<lparr>call_method = POST, call_base = base_url c, call_resource = Pages,
              call_headers = headers c, call_json = payload\<rparr>
      in case out of
           Raises e r \<Rightarrow> create_failed e r w1
         | Returns resp \<Rightarrow>
             (case raise_for_status resp of
                Some e \<Rightarrow> create_failed e (Some resp) w1
              | None \<Rightarrow>
                  let w2 = logger INFO
                        [Lit ''Successfully created page for UID: '',
                         Lit (py_str (dict_get data ''uid''))] w1
                  in (case json_result resp of
                        Inl e \<Rightarrow> create_failed e None w2
                      | Inr body \<Rightarrow> (Inr body, w2))))"

text \<open>
  The \<^verbatim>\<open>except\<close> clause of \<^verbatim>\<open>check_if_exists\<close>: a request exception is
  logged and raised again; another exception passes through.
\<close>

definition check_failed :: "exn \<Rightarrow> world \<Rightarrow> (exn + pyobj) \<times> world" where
  "check_failed e w =
     (if exn_class e = RequestException
      then (Inl e, logger ERROR [Lit ''Error checking existence: '', Lit (exn_str e)] w)
      else (Inl e, w))"

text \<open>
  \<^verbatim>\<open>check_if_exists\<close>: the value returned (\<open>Leaf VNone\<close> is \<^verbatim>\<open>None\<close>), or the
  exception raised.
\<close>

definition check_if_exists ::
  "platform \<Rightarrow> client \<Rightarrow> world \<Rightarrow> pyval \<Rightarrow> (exn + pyobj) \<times> world" where
  "check_if_exists p c w uid =
     (let filter_data =
            PDict [(''filter'',
              PDict [(''property'', Leaf (VStr ''UID'')),
                     (''rich_text'', PDict [(''equals'', Leaf uid)])])];
          (out, w1) = requests_call p w
             \<lparr>call_method = POST, call_base = base_url c,
              call_resource = DatabaseQuery (database_id c),
              call_headers = headers c, call_json = filter_data\<rparr>
      in case out of
           Raises e r \<Rightarrow> check_failed e w1
         | Returns resp \<Rightarrow>
             (case raise_for_status resp of
                Some e \<Rightarrow> check_failed e w1
              | None \<Rightarrow>
                  (case json_result resp of
                     Inl e \<Rightarrow> check_failed e w1
                   | Inr body \<Rightarrow>
                       (case py_get body ''results'' (PList []) of
                          Inl e \<Rightarrow> check_failed e w1
                        | Inr results \<Rightarrow>
                            if obj_truthy results then
                              (case py_first results of
                                 Inl e \<Rightarrow> check_failed e w1
                               | Inr page \<Rightarrow>
                                   (case py_item page ''id'' of
                                      Inl e \<Rightarrow> check_failed e w1
                                    | Inr page_id \<Rightarrow> (Inr page_id, w1)))
                            else (Inr (Leaf VNone), w1)))))"

definition update_failed :: "exn \<Rightarrow> world \<Rightarrow> (exn + pyobj) \<times> world" where
  "update_failed e w =
     (if exn_class e = RequestException
      then (Inl e, logger ERROR [Lit ''Error updating page: '', Lit (exn_str e)] w)
      else (Inl e, w))"

definition update_page ::
  "platform \<Rightarrow> client \<Rightarrow> world \<Rightarrow> pyobj \<Rightarrow> pyval dict \<Rightarrow> (exn + pyobj) \<times> world" where
  "update_page p c w page_id data =
     (let properties = update_properties data;
          payload = PDict [(''properties'', PDict properties)];
          (out, w1) = requests_call p w
             \<lparr>call_method = PATCH, call_base = base_url c, call_resource = Page page_id,
              call_headers = headers c, call_json = payload\<rparr>
      in case out of
           Raises e r \<Rightarrow> update_failed e w1
         | Returns resp \<Rightarrow>
             (case raise_for_status resp of
                Some e \<Rightarrow> update_failed e w1
              | None \<Rightarrow>
                  let w2 = logger INFO
                        [Lit ''Successfully updated page: '', py_format page_id] w1
                  in (case json_result resp of
                        Inl e \<Rightarrow> update_failed e w2
                      | Inr body \<Rightarrow> (Inr body, w2))))"

section \<open>The sync loop\<close>

record summary =
  created :: nat
  updated :: nat
  errors :: nat
  error_details :: "(pyval dict \<times> string) list"

text \<open>\<^verbatim>\<open>record.get('uid', 'unknown')\<close>, as an f-string shows it.\<close>

definition uid_or_unknown :: "pyval dict \<Rightarrow> string" where
  "uid_or_unknown r = (case map_of r ''uid'' of None \<Rightarrow> ''unknown'' | Some v \<Rightarrow> py_str v)"

text \<open>The \<^verbatim>\<open>except Exception\<close> clause of the loop.\<close>

definition sync_failed :: "pyval dict \<Rightarrow> exn \<Rightarrow> world \<Rightarrow> summary \<Rightarrow> world \<times> summary" where
  "sync_failed r e w s =
     (logger ERROR
        [Lit ''Error processing record '', Lit (uid_or_unknown r), Lit '': '',
         Lit (exn_str e)] w,
      s\<lparr>errors := errors s + 1, error_details := error_details s @ [(r, exn_str e)]\<rparr>)"

text \<open>The body of the loop of \<^verbatim>\<open>sync_from_database\<close>, for one record.\<close>

definition sync_record ::
  "platform \<Rightarrow> client \<Rightarrow> world \<times> summary \<Rightarrow> pyval dict \<Rightarrow> world \<times> summary" where
  "sync_record p c ws r =
     (case ws of (w, s) \<Rightarrow>
        let uid = dict_get r ''uid'' in
        if \<not> truthy uid then
          (logger WARNING [Lit ''Skipping record without UID: '', Fmt (obj_of_record r)] w,
           s\<lparr>errors := errors s + 1,
             error_details := error_details s @ [(r, ''Missing UID'')]\<rparr>)
        else
          (case check_if_exists p c w uid of
             (Inl e, w1) \<Rightarrow> sync_failed r e w1 s
           | (Inr existing_page_id, w1) \<Rightarrow>
               if obj_truthy existing_page_id then
                 let w2 = logger INFO [Lit ''Updating existing record: '', Lit (py_str uid)] w1
                 in (case update_page p c w2 existing_page_id r of
                       (Inl e, w3) \<Rightarrow> sync_failed r e w3 s
                     | (Inr resp, w3) \<Rightarrow> (w3, s\<lparr>updated := updated s + 1\<rparr>))
               else
                 let w2 = logger INFO [Lit ''Creating new record: '', Lit (py_str uid)] w1
                 in (case create_page p c w2 r of
                       (Inl e, w3) \<Rightarrow> sync_failed r e w3 s
                     | (Inr resp, w3) \<Rightarrow> (w3, s\<lparr>created := created s + 1\<rparr>))))"

fun sync_loop ::
  "platform \<Rightarrow> client \<Rightarrow> world \<times> summary \<Rightarrow> pyval dict list \<Rightarrow> world \<times> summary" where
  "sync_loop p c ws [] = ws"
| "sync_loop p c ws (r # records) = sync_loop p c (sync_record p c ws r) records"

definition sync_from_database ::
  "platform \<Rightarrow> client \<Rightarrow> world \<Rightarrow> pyval dict list \<Rightarrow> summary \<times> world" where
  "sync_from_database p c w records =
     (case sync_loop p c
             (w, \<lparr>created = 0, updated = 0, errors = 0, error_details = []\<rparr>) records of
        (w1, s) \<Rightarrow>
          (s, logger INFO
                [Lit ''Sync Summary: Created: '', Lit (string_of_nat (created s)),
                 Lit '', Updated: '', Lit (string_of_nat (updated s)),
                 Lit '', Errors: '', Lit (string_of_nat (errors s))] w1))"

section \<open>Database connectors\<close>

text \<open>The table \<^verbatim>\<open>connectors\<close> of \<^verbatim>\<open>get_connector\<close>.\<close>

definition connectors :: "(string \<times> connector) list" where
  "connectors =
     [(''postgresql'', PostgreSQLConnector),
      (''mysql'', MySQLConnector),
      (''mongodb'', MongoDBConnector),
      (''sqlite'', SQLiteConnector)]"

text \<open>
  \<^verbatim>\<open>DatabaseConnector.get_connector(db_type)\<close>; \<open>None\<close> is the call without an
  argument. A class is truthy, so \<^verbatim>\<open>not connector_class\<close> holds exactly when the
  table has no entry.
\<close>

definition get_connector :: "platform \<Rightarrow> string option \<Rightarrow> exn + connector" where
  "get_connector p db_type_arg =
     (let db_type = str_or db_type_arg (Some (getenv_default p ''DB_TYPE'' ''postgresql''))
      in case db_type of
           None \<Rightarrow> Inl (Exn ValueError ''Unsupported database type: None'')
         | Some t \<Rightarrow>
             (case map_of connectors t of
                None \<Rightarrow> Inl (Exn ValueError (''Unsupported database type: '' @ t))
              | Some connector_class \<Rightarrow> Inr connector_class))"

text \<open>
  The loop of \<^verbatim>\<open>MongoDBConnector.fetch_records\<close> that turns \<^verbatim>\<open>_id\<close> into a
  string.
\<close>

definition stringify_id :: "pyval dict \<Rightarrow> pyval dict" where
  "stringify_id r =
     (case map_of r ''_id'' of
        None \<Rightarrow> r
      | Some v \<Rightarrow> dict_set ''_id'' (VStr (py_str v)) r)"

text \<open>
  \<^verbatim>\<open>fetch_records\<close> of the four connectors. Connecting, running the query and
  reading the rows are the driver's work: the platform gives their joint result. The
  imports are the program's own: three connectors catch the \<^verbatim>\<open>ImportError\<close>, log
  and return the empty list; \<^verbatim>\<open>SQLiteConnector\<close> imports \<^verbatim>\<open>sqlite3\<close> outside
  any \<^verbatim>\<open>try\<close>.
\<close>

fun fetch_records ::
  "platform \<Rightarrow> world \<Rightarrow> connector \<Rightarrow> (exn + pyval dict list) \<times> world" where
  "fetch_records p w PostgreSQLConnector =
     (if import_error p ''psycopg2'' \<noteq> None \<or> import_error p ''psycopg2.extras'' \<noteq> None
      then (Inr [], logger ERROR
              [Lit ''psycopg2 not installed. Run: pip install psycopg2-binary''] w)
      else (db_rows p PostgreSQLConnector, w))"
| "fetch_records p w MySQLConnector =
     (if import_error p ''mysql.connector'' \<noteq> None
      then (Inr [], logger ERROR
              [Lit (''mysql-connector-python not installed. '' @
                    ''Run: pip install mysql-connector-python'')] w)
      else (db_rows p MySQLConnector, w))"
| "fetch_records p w MongoDBConnector =
     (if import_error p ''pymongo'' \<noteq> None
      then (Inr [], logger ERROR [Lit ''pymongo not installed. Run: pip install pymongo''] w)
      else (case db_rows p MongoDBConnector of
              Inl e \<Rightarrow> (Inl e, w)
            | Inr records \<Rightarrow> (Inr (map stringify_id records), w)))"
| "fetch_records p w SQLiteConnector =
     (case import_error p ''sqlite3'' of
        Some msg \<Rightarrow> (Inl (Exn ImportError msg), w)
      | None \<Rightarrow> (db_rows p SQLiteConnector, w))"

section \<open>The main function\<close>

text \<open>The emoji of the summary lines, as their UTF-8 bytes.\<close>

definition check_mark :: string where
  "check_mark = [CHR 0xE2, CHR 0x9C, CHR 0x85]"

definition memo :: string where
  "memo = [CHR 0xF0, CHR 0x9F, CHR 0x93, CHR 0x9D]"

definition cross_mark :: string where
  "cross_mark = [CHR 0xE2, CHR 0x9D, CHR 0x8C]"

text \<open>The line printed for one entry of \<^verbatim>\<open>error_details\<close>.\<close>

definition error_line :: "pyval dict \<times> string \<Rightarrow> string" where
  "error_line err = (case err of (r, msg) \<Rightarrow> ''  - UID '' @ uid_or_unknown r @ '': '' @ msg)"

fun print_all :: "string list \<Rightarrow> world \<Rightarrow> world" where
  "print_all [] w = w"
| "print_all (line # rest) w = print_all rest (print line w)"

definition print_summary :: "summary \<Rightarrow> world \<Rightarrow> world" where
  "print_summary s w =
     (let w1 = print_all
            [CHR 0x0A # replicate 50 CHR ''='',
             ''SYNC COMPLETE'',
             replicate 50 CHR ''='',
             check_mark @ '' Created: '' @ string_of_nat (created s) @ '' new records'',
             memo @ '' Updated: '' @ string_of_nat (updated s) @ '' existing records'',
             cross_mark @ '' Errors: '' @ string_of_nat (errors s) @ '' failed records''] w
      in if error_details s \<noteq> [] then
           print_all (map error_line (take 5 (error_details s)))
             (print (CHR 0x0A # ''Error Details:'') w1)
         else w1)"

text \<open>The \<^verbatim>\<open>except Exception\<close> clause of \<^verbatim>\<open>main\<close>: log, \<^verbatim>\<open>sys.exit(1)\<close>.\<close>

definition fatal :: "exn \<Rightarrow> world \<Rightarrow> world \<times> nat" where
  "fatal e w = (logger ERROR [Lit ''Fatal error: '', Lit (exn_str e)] w, 1)"

text \<open>
  \<^verbatim>\<open>main\<close>: what the run leaves behind, and the exit status of the process.
  \<^verbatim>\<open>sys.exit(1)\<close> raises \<^verbatim>\<open>SystemExit\<close>, which is not an \<^verbatim>\<open>Exception\<close>
  and so passes the \<^verbatim>\<open>except\<close> clause; a \<^verbatim>\<open>main\<close> that returns ends the
  process with status 0.
\<close>

definition main :: "platform \<Rightarrow> world \<Rightarrow> world \<times> nat" where
  "main p w =
     (let w1 = logger INFO [Lit ''Initializing Notion sync client...''] w in
      case NotionDatabaseSync_init p None None of
        Inl e \<Rightarrow> fatal e w1
      | Inr sync_client \<Rightarrow>
          let db_type = getenv_default p ''DB_TYPE'' ''postgresql'';
              w2 = logger INFO [Lit ''Connecting to '', Lit db_type, Lit '' database...''] w1
          in (case get_connector p (Some db_type) of
                Inl e \<Rightarrow> fatal e w2
              | Inr conn \<Rightarrow>
                  let w3 = logger INFO [Lit ''Fetching data from internal database...''] w2
                  in (case fetch_records p w3 conn of
                        (Inl e, w4) \<Rightarrow> fatal e w4
                      | (Inr records, w4) \<Rightarrow>
                          let w5 = logger INFO
                                [Lit ''Found '', Lit (string_of_nat (length records)),
                                 Lit '' records to sync''] w4
                          in if records = [] then
                               (logger INFO [Lit ''No records to sync''] w5, 0)
                             else
                               let w6 = logger INFO [Lit ''Syncing to Notion...''] w5 in
                               (case sync_from_database p sync_client w6 records of
                                  (s, w7) \<Rightarrow>
                                    let w8 = print_summary s w7 in
                                    if errors s > 0 then (w8, 1) else (w8, 0)))))"

section \<open>Auxiliary notions\<close>

text \<open>
  What one row of \<open>property_mapping\<close> contributes for a record: the value stored under
  the row's property, or nothing. Used to describe \<open>format_entry\<close> in the proofs.
\<close>

definition entry_value :: "pyval dict \<Rightarrow> string \<Rightarrow> string \<Rightarrow> pyobj option" where
  "entry_value data data_key prop_type =
     (let v = dict_get data data_key in
      if v = VNone then None
      else if prop_type = ''title'' then Some (PDict [(''title'', text_content v)])
      else if prop_type = ''rich_text'' then Some (PDict [(''rich_text'', text_content v)])
      else if prop_type = ''select'' then
        Some (PDict [(''select'', PDict [(''name'', Leaf (VStr (py_str v)))])])
      else if prop_type = ''date'' \<and> truthy v then
        Some (PDict [(''date'', PDict [(''start'', Leaf (VStr (py_str v)))])])
      else None)"

text \<open>The Notion properties that \<open>property_mapping\<close> fills from a given record field.\<close>

definition props_of_field :: "string \<Rightarrow> string set" where
  "props_of_field f = {q. \<exists>t. (q, f, t) \<in> set property_mapping}"

section \<open>Sample inputs\<close>

text \<open>
  A client, an empty world, and a remote service used to run the definitions on concrete
  inputs. The service knows one page, for the UID \<open>old\<close>; it answers a query for the UID
  \<open>bad\<close> with status 500, and every other call with status 200.
\<close>

definition sample_client :: client where
  "sample_client =
     \<lparr>notion_token = ''secret'',
      database_id = ''db1'',
      headers =
        [(''Authorization'', ''Bearer secret''),
         (''Content-Type'', ''application/json''),
         (''Notion-Version'', ''2022-06-28'')],
      base_url = ''https://api.notion.com/v1''\<rparr>"

definition empty_world :: world where
  "empty_world = \<lparr>calls = [], log = [], stdout = []\<rparr>"

definition uid_filter :: "string \<Rightarrow> pyobj" where
  "uid_filter u =
     PDict [(''filter'',
       PDict [(''property'', Leaf (VStr ''UID'')),
              (''rich_text'', PDict [(''equals'', Leaf (VStr u))])])]"

definition ok_response :: "pyobj \<Rightarrow> response" where
  "ok_response body = \<lparr>status_code = 200, http_error_str = [], json_result = Inr body\<rparr>"

definition sample_http :: "http_call list \<Rightarrow> http_call \<Rightarrow> http_outcome" where
  "sample_http history q =
     (case call_resource q of
        DatabaseQuery d \<Rightarrow>
          if call_json q = uid_filter ''bad'' then
            Returns \<lparr>status_code = 500, http_error_str = ''500 Server Error'',
                     json_result = Inr (PDict [])\<rparr>
          else if call_json q = uid_filter ''old'' then
            Returns (ok_response
              (PDict [(''results'', PList [PDict [(''id'', Leaf (VStr ''page-1''))]])]))
          else Returns (ok_response (PDict [(''results'', PList [])]))
      | Pages \<Rightarrow> Returns (ok_response (PDict [(''id'', Leaf (VStr ''page-2''))]))
      | Page page_id \<Rightarrow> Returns (ok_response (PDict [(''id'', page_id)])))"

definition record_old :: "pyval dict" where
  "record_old = [(''uid'', VStr ''old''), (''name'', VStr ''Ada''), (''status'', VStr ''Active'')]"

definition record_new :: "pyval dict" where
  "record_new = [(''uid'', VStr ''new''), (''name'', VStr ''Bob'')]"

definition record_missing :: "pyval dict" where
  "record_missing = [(''name'', VStr ''Cy'')]"

definition record_empty :: "pyval dict" where
  "record_empty = [(''uid'', VStr ''''), (''name'', VStr ''Di'')]"

definition record_bad :: "pyval dict" where
  "record_bad = [(''uid'', VStr ''bad'')]"

text \<open>
  A platform with the two Notion variables set, every module importable, and a backend
  that gives three records whatever the connector.
\<close>

definition sample_platform :: platform where
  "sample_platform =
     \<lparr>getenv = map_of [(''NOTION_TOKEN'', ''secret''), (''NOTION_DATABASE_ID'', ''db1'')],
      import_error = (\<lambda>m. None),
      db_rows = (\<lambda>k. Inr [record_old, record_new, record_missing]),
      http = sample_http\<rparr>"

text \<open>The same platform with \<^verbatim>\<open>DB_TYPE=mysql\<close> in the environment.\<close>

definition mysql_platform :: platform where
  "mysql_platform =
     sample_platform
       \<lparr>getenv := map_of [(''NOTION_TOKEN'', ''secret''), (''NOTION_DATABASE_ID'', ''db1''),
                          (''DB_TYPE'', ''mysql'')]\<rparr>"

text \<open>The same platform on an interpreter where no driver module can be imported.\<close>

definition no_driver_platform :: platform where
  "no_driver_platform =
     sample_platform\<lparr>import_error := (\<lambda>m. Some (''No module named '' @ quoted m))\<rparr>"

text \<open>The same platform with a backend that has no record to give.\<close>

definition idle_platform :: platform where
  "idle_platform = sample_platform\<lparr>db_rows := (\<lambda>k. Inr [])\<rparr>"

text \<open>The summary the loop of \<^verbatim>\<open>sync_from_database\<close> starts from.\<close>

definition empty_summary :: summary where
  "empty_summary = \<lparr>created = 0, updated = 0, errors = 0, error_details = []\<rparr>"

section \<open>Facts about dictionaries and the formatter\<close>

lemma map_of_dict_set: "map_of (dict_set k v d) q = (if q = k then Some v else map_of d q)"
  by (induction d) auto

lemma keys_dict_set: "fst ` set (dict_set k v d) = insert k (fst ` set d)"
  by (induction d) force+

lemma keys_dict_update: "fst ` set (dict_update d other) = fst ` set d \<union> fst ` set other"
  by (induction d other rule: dict_update.induct) (auto simp: keys_dict_set)

lemma format_entry_value:
  "format_entry data props (p, k, t) =
     (case entry_value data k t of None \<Rightarrow> props | Some x \<Rightarrow> dict_set p x props)"
  by (simp add: format_entry_def entry_value_def Let_def)

lemma map_of_format_loop:
  "distinct (map fst es) \<Longrightarrow>
   map_of (format_loop data props es) q =
     (case map_of es q of
        None \<Rightarrow> map_of props q
      | Some (k, t) \<Rightarrow>
          (case entry_value data k t of None \<Rightarrow> map_of props q | Some x \<Rightarrow> Some x))"
proof (induction es arbitrary: props)
  case Nil
  then show ?case by simp
next
  case (Cons e es)
  obtain p k t where e: "e = (p, k, t)" by (cases e) auto
  from Cons.prems have d: "distinct (map fst es)" and np: "p \<notin> fst ` set es"
    by (auto simp: e)
  from np have nm: "map_of es p = None" by (simp add: map_of_eq_None_iff)
  show ?case
    using Cons.IH [OF d, of "format_entry data props e"] nm
    by (auto simp: e format_entry_value map_of_dict_set split: option.splits)
qed

lemma pm_distinct: "distinct (map fst property_mapping)"
  by (simp add: property_mapping_def)

lemma map_of_format_properties:
  "map_of (format_properties data) q =
     (case map_of property_mapping q of
        None \<Rightarrow> None
      | Some (k, t) \<Rightarrow> entry_value data k t)"
  unfolding format_properties_def
  by (simp add: map_of_format_loop pm_distinct split: option.splits)

lemma pm_dates:
  "map_of property_mapping ''Review Date'' = Some (''review_date'', ''date'')"
  "map_of property_mapping ''Next Follow Up'' = Some (''next_follow_up'', ''date'')"
  "map_of property_mapping ''Date Added'' = Some (''date_added'', ''date'')"
  by (simp_all add: property_mapping_def)

lemma entry_value_None: "dict_get data k = VNone \<Longrightarrow> entry_value data k t = None"
  by (simp add: entry_value_def)

lemma entry_value_not_null: "entry_value data k t = Some x \<Longrightarrow> x \<noteq> Leaf VNone"
  by (auto simp: entry_value_def Let_def split: if_splits)

lemma entry_value_date:
  "entry_value data k ''date'' =
     (if truthy (dict_get data k)
      then Some (PDict [(''date'', PDict [(''start'', Leaf (VStr (py_str (dict_get data k))))])])
      else None)"
  by (auto simp: entry_value_def Let_def)

section \<open>Formatting single fields\<close>

text \<open>
  C2: formatting the record \<^verbatim>\<open>{"status": "Active"}\<close> gives exactly
  \<^verbatim>\<open>{"Status": {"select": {"name": "Active"}}}\<close>, and formatting
  \<^verbatim>\<open>{"uid": "123"}\<close> gives exactly
  \<^verbatim>\<open>{"UID": {"rich_text": [{"text": {"content": "123"}}]}}\<close>.
\<close>

theorem format_properties_examples:
  "format_properties [(''status'', VStr ''Active'')] =
     [(''Status'', PDict [(''select'', PDict [(''name'', Leaf (VStr ''Active''))])])]
   \<and> format_properties [(''uid'', VStr ''123'')] =
     [(''UID'', PDict [(''rich_text'',
        PList [PDict [(''text'', PDict [(''content'', Leaf (VStr ''123''))])]])])]"
  by (simp add: format_properties_def property_mapping_def format_entry_def
      dict_get_def text_content_def)

section \<open>Omitted properties\<close>

text \<open>
  C3: for every record, a Notion property whose record field is \<^verbatim>\<open>None\<close> or
  missing is absent from the formatter's output, and no output value is an explicit
  \<^verbatim>\<open>None\<close>. For the three date fields the property is present exactly when the
  value is truthy (not \<^verbatim>\<open>None\<close>, not empty), and is then
  \<^verbatim>\<open>{"date": {"start": str(value)}}\<close>.
\<close>

theorem format_properties_omits:
  "(\<forall>(p, k, t) \<in> set property_mapping.
      dict_get data k = VNone \<longrightarrow> map_of (format_properties data) p = None)
   \<and> (\<forall>p x. map_of (format_properties data) p = Some x \<longrightarrow> x \<noteq> Leaf VNone)
   \<and> (\<forall>(p, k) \<in> {(''Review Date'', ''review_date''), (''Next Follow Up'', ''next_follow_up''),
                  (''Date Added'', ''date_added'')}.
        map_of (format_properties data) p =
          (if truthy (dict_get data k)
           then Some (PDict [(''date'', PDict [(''start'', Leaf (VStr (py_str (dict_get data k))))])])
           else None))"
proof (intro conjI)
  show "\<forall>(p, k, t) \<in> set property_mapping.
      dict_get data k = VNone \<longrightarrow> map_of (format_properties data) p = None"
  proof (clarify)
    fix p k t
    assume m: "(p, k, t) \<in> set property_mapping" and n: "dict_get data k = VNone"
    from m pm_distinct have "map_of property_mapping p = Some (k, t)" by simp
    with n show "map_of (format_properties data) p = None"
      by (simp add: map_of_format_properties entry_value_None)
  qed
next
  show "\<forall>p x. map_of (format_properties data) p = Some x \<longrightarrow> x \<noteq> Leaf VNone"
    by (auto simp: map_of_format_properties split: option.splits dest: entry_value_not_null)
next
  show "\<forall>(p, k) \<in> {(''Review Date'', ''review_date''), (''Next Follow Up'', ''next_follow_up''),
                  (''Date Added'', ''date_added'')}.
        map_of (format_properties data) p =
          (if truthy (dict_get data k)
           then Some (PDict [(''date'', PDict [(''start'', Leaf (VStr (py_str (dict_get data k))))])])
           else None)"
    by (simp add: map_of_format_properties pm_dates entry_value_date)
qed

theorem format_properties_omits_witness:
  "dict_get [(''uid'', VStr ''7''), (''status'', VNone), (''review_date'', VStr ''''),
             (''date_added'', VObj ''2024-01-02'')] ''status'' = VNone
   \<and> dict_get [(''uid'', VStr ''7''), (''status'', VNone), (''review_date'', VStr ''''),
             (''date_added'', VObj ''2024-01-02'')] ''name'' = VNone
   \<and> map_of (format_properties
         [(''uid'', VStr ''7''), (''status'', VNone), (''review_date'', VStr ''''),
          (''date_added'', VObj ''2024-01-02'')]) ''Status'' = None
   \<and> map_of (format_properties
         [(''uid'', VStr ''7''), (''status'', VNone), (''review_date'', VStr ''''),
          (''date_added'', VObj ''2024-01-02'')]) ''Name'' = None
   \<and> map_of (format_properties
         [(''uid'', VStr ''7''), (''status'', VNone), (''review_date'', VStr ''''),
          (''date_added'', VObj ''2024-01-02'')]) ''Review Date'' = None
   \<and> map_of (format_properties
         [(''uid'', VStr ''7''), (''status'', VNone), (''review_date'', VStr ''''),
          (''date_added'', VObj ''2024-01-02'')]) ''Date Added'' =
       Some (PDict [(''date'', PDict [(''start'', Leaf (VStr ''2024-01-02''))])])"
  using format_properties_omits
    [of "[(''uid'', VStr ''7''), (''status'', VNone), (''review_date'', VStr ''''),
          (''date_added'', VObj ''2024-01-02'')]"]
  by (simp add: property_mapping_def dict_get_def)

section \<open>The payload of an update\<close>

lemma keys_format_properties:
  "fst ` set (format_properties data) =
     {q. \<exists>k t. map_of property_mapping q = Some (k, t) \<and> entry_value data k t \<noteq> None}"
proof -
  have "fst ` set (format_properties data) = dom (map_of (format_properties data))"
    by (simp add: dom_map_of_conv_image_fst)
  also have "\<dots> = {q. \<exists>k t. map_of property_mapping q = Some (k, t) \<and> entry_value data k t \<noteq> None}"
    by (auto simp: dom_def map_of_format_properties split: option.splits)
  finally show ?thesis .
qed

lemma entry_value_single:
  "k \<noteq> f \<Longrightarrow> entry_value [(f, v)] k t = None"
  by (simp add: entry_value_def dict_get_def)


lemma mem_keys_format_properties:
  assumes "q \<in> fst ` set (format_properties data)"
  shows "\<exists>k t. (q, k, t) \<in> set property_mapping \<and> entry_value data k t \<noteq> None"
proof -
  from assms have "q \<in> {q. \<exists>k t. map_of property_mapping q = Some (k, t) \<and> entry_value data k t \<noteq> None}"
    by (simp only: keys_format_properties)
  then obtain k t where m: "map_of property_mapping q = Some (k, t)"
    and e: "entry_value data k t \<noteq> None"
    by blast
  from m have "(q, k, t) \<in> set property_mapping" by (rule map_of_SomeD)
  with e show ?thesis by blast
qed


lemma keys_format_single: "fst ` set (format_properties [(f, v)]) \<subseteq> props_of_field f"
proof
  fix q
  assume "q \<in> fst ` set (format_properties [(f, v)])"
  then obtain k t where m: "(q, k, t) \<in> set property_mapping"
    and e: "entry_value [(f, v)] k t \<noteq> None"
    using mem_keys_format_properties by blast
  have "k = f"
  proof (rule ccontr)
    assume "k \<noteq> f"
    then have "entry_value [(f, v)] k t = None" by (rule entry_value_single)
    with e show False by simp
  qed
  with m show "q \<in> props_of_field f"
    unfolding props_of_field_def by blast
qed

lemma keys_update_loop:
  "fst ` set (update_loop data props fs) \<subseteq> fst ` set props \<union> (\<Union>f \<in> set fs. props_of_field f)"
proof (induction fs arbitrary: props)
  case Nil
  then show ?case by simp
next
  case (Cons f fs)
  show ?case
  proof (cases "map_of data f")
    case None
    then show ?thesis using Cons.IH [of props] by auto
  next
    case (Some v)
    have "fst ` set (dict_update props (format_properties [(f, v)]))
            \<subseteq> fst ` set props \<union> props_of_field f"
      using keys_format_single [of f v] by (auto simp: keys_dict_update)
    with Cons.IH [of "dict_update props (format_properties [(f, v)])"] Some
    show ?thesis by auto
  qed
qed

lemma props_of_field_simps:
  "props_of_field ''status'' = {''Status''}"
    "props_of_field ''platform'' = {''Platform''}"
    "props_of_field ''socials'' = {''Socials''}"
    "props_of_field ''reviewer_name'' = {''Reviewer Name''}"
    "props_of_field ''review_date'' = {''Review Date''}"
    "props_of_field ''next_follow_up'' = {''Next Follow Up''}"
  unfolding props_of_field_def property_mapping_def by simp_all

lemma props_of_update_fields:
  "(\<Union>f \<in> set update_fields. props_of_field f) =
     {''Status'', ''Platform'', ''Socials'', ''Reviewer Name'', ''Review Date'',
      ''Next Follow Up''}"
  unfolding update_fields_def by (simp add: props_of_field_simps insert_commute)

lemma keys_update_properties:
  "fst ` set (update_properties data) \<subseteq>
     {''Status'', ''Platform'', ''Socials'', ''Reviewer Name'', ''Review Date'',
      ''Next Follow Up''}"
  using keys_update_loop [of data "[]" update_fields]
  by (simp add: update_properties_def props_of_update_fields)

lemma map_of_filter_keys:
  "map_of (filter (\<lambda>(k, v). P k) d) f = (if P f then map_of d f else None)"
  by (induction d) auto

lemma update_loop_cong:
  "(\<And>f. f \<in> set fs \<Longrightarrow> map_of data f = map_of data' f) \<Longrightarrow>
   update_loop data props fs = update_loop data' props fs"
  by (induction fs arbitrary: props) auto

lemma update_properties_filter:
  "update_properties data = update_properties (filter (\<lambda>(k, v). k \<in> set update_fields) data)"
  unfolding update_properties_def
  by (rule update_loop_cong) (simp add: map_of_filter_keys)

lemma update_page_calls:
  "calls (snd (update_page p c w page_id data)) =
     calls w @ [\<lparr>call_method = PATCH, call_base = base_url c, call_resource = Page page_id,
                 call_headers = headers c,
                 call_json = PDict [(''properties'', PDict (update_properties data))]\<rparr>]"
  by (simp add: update_page_def requests_call_def update_failed_def logger_def Let_def
      split: http_outcome.splits option.splits sum.splits)

text \<open>
  C4: whatever the page id and the record, \<^verbatim>\<open>update_page\<close> makes one PATCH call
  whose payload is \<^verbatim>\<open>{"properties": props}\<close>, where \<open>props\<close> is computed from
  the allow-listed fields of the record alone and has no key outside Status, Platform,
  Socials, Reviewer Name, Review Date, Next Follow Up: UID, Name and Date Added never
  occur in it.
\<close>

theorem update_page_payload:
  "\<exists>props.
     calls (snd (update_page p c w page_id data)) =
       calls w @ [\<lparr>call_method = PATCH, call_base = base_url c,
                   call_resource = Page page_id, call_headers = headers c,
                   call_json = PDict [(''properties'', PDict props)]\<rparr>]
     \<and> props = update_properties (filter (\<lambda>(k, v). k \<in> set update_fields) data)
     \<and> fst ` set props \<subseteq>
         {''Status'', ''Platform'', ''Socials'', ''Reviewer Name'', ''Review Date'',
          ''Next Follow Up''}
     \<and> ''UID'' \<notin> fst ` set props \<and> ''Name'' \<notin> fst ` set props
     \<and> ''Date Added'' \<notin> fst ` set props"
proof (intro exI conjI)
  show "calls (snd (update_page p c w page_id data)) =
       calls w @ [\<lparr>call_method = PATCH, call_base = base_url c,
                   call_resource = Page page_id, call_headers = headers c,
                   call_json = PDict [(''properties'', PDict (update_properties data))]\<rparr>]"
    by (rule update_page_calls)
  show "update_properties data =
      update_properties (filter (\<lambda>(k, v). k \<in> set update_fields) data)"
    by (rule update_properties_filter)
  show k: "fst ` set (update_properties data) \<subseteq>
         {''Status'', ''Platform'', ''Socials'', ''Reviewer Name'', ''Review Date'',
          ''Next Follow Up''}"
    by (rule keys_update_properties)
  show "''UID'' \<notin> fst ` set (update_properties data)"
  proof
    assume "''UID'' \<in> fst ` set (update_properties data)"
    with k have "''UID'' \<in> {''Status'', ''Platform'', ''Socials'', ''Reviewer Name'',
      ''Review Date'', ''Next Follow Up''}" by (rule subsetD)
    then show False by simp
  qed
  show "''Name'' \<notin> fst ` set (update_properties data)"
  proof
    assume "''Name'' \<in> fst ` set (update_properties data)"
    with k have "''Name'' \<in> {''Status'', ''Platform'', ''Socials'', ''Reviewer Name'',
      ''Review Date'', ''Next Follow Up''}" by (rule subsetD)
    then show False by simp
  qed
  show "''Date Added'' \<notin> fst ` set (update_properties data)"
  proof
    assume "''Date Added'' \<in> fst ` set (update_properties data)"
    with k have "''Date Added'' \<in> {''Status'', ''Platform'', ''Socials'', ''Reviewer Name'',
      ''Review Date'', ''Next Follow Up''}" by (rule subsetD)
    then show False by simp
  qed
qed

section \<open>The sync loop, record by record\<close>

lemma calls_logger [simp]: "calls (logger lv msg w) = calls w"
  by (simp add: logger_def)

lemma stdout_logger [simp]: "stdout (logger lv msg w) = stdout w"
  by (simp add: logger_def)

lemma log_logger [simp]: "log (logger lv msg w) = log w @ [(lv, msg)]"
  by (simp add: logger_def)

lemma sync_record_falsy:
  "\<not> truthy (dict_get r ''uid'') \<Longrightarrow>
   sync_record p c (w, s) r =
     (logger WARNING [Lit ''Skipping record without UID: '', Fmt (obj_of_record r)] w,
      s\<lparr>errors := errors s + 1, error_details := error_details s @ [(r, ''Missing UID'')]\<rparr>)"
  by (simp add: sync_record_def)

lemma sync_record_cases:
  "\<exists>w'. sync_record p c (w, s) r = (w', s\<lparr>created := created s + 1\<rparr>)
      \<or> sync_record p c (w, s) r = (w', s\<lparr>updated := updated s + 1\<rparr>)
      \<or> (\<exists>msg. sync_record p c (w, s) r =
            (w', s\<lparr>errors := errors s + 1,
                   error_details := error_details s @ [(r, msg)]\<rparr>))"
  by (auto simp: sync_record_def sync_failed_def Let_def split: prod.splits sum.splits)

lemma sync_loop_append:
  "sync_loop p c ws (xs @ ys) = sync_loop p c (sync_loop p c ws xs) ys"
  by (induction xs arbitrary: ws) auto

lemma sync_loop_counts:
  "sync_loop p c (w, s) rs = (w', s') \<Longrightarrow>
   created s' + updated s' + errors s' = created s + updated s + errors s + length rs
   \<and> length (error_details s') + errors s = length (error_details s) + errors s'"
proof (induction rs arbitrary: w s)
  case Nil
  then show ?case by simp
next
  case (Cons r rs)
  obtain w1 s1 where step: "sync_record p c (w, s) r = (w1, s1)"
    by (cases "sync_record p c (w, s) r") auto
  from sync_record_cases [of p c w s r] step
  have one: "created s1 + updated s1 + errors s1 = created s + updated s + errors s + 1
     \<and> length (error_details s1) + errors s = length (error_details s) + errors s1"
    by auto
  from Cons.prems step have "sync_loop p c (w1, s1) rs = (w', s')" by simp
  from Cons.IH [OF this] one show ?case by simp
qed

lemma calls_check_if_exists:
  "\<exists>q. calls (snd (check_if_exists p c w uid)) = calls w @ [q]"
  by (simp add: check_if_exists_def requests_call_def check_failed_def Let_def
      split: http_outcome.splits option.splits sum.splits)

lemma calls_create_page:
  "\<exists>q. calls (snd (create_page p c w data)) = calls w @ [q]"
  by (simp add: create_page_def requests_call_def create_failed_def Let_def
      split: http_outcome.splits option.splits sum.splits)

lemma calls_update_page:
  "\<exists>q. calls (snd (update_page p c w page_id data)) = calls w @ [q]"
  by (simp add: update_page_def requests_call_def update_failed_def Let_def
      split: http_outcome.splits option.splits sum.splits)

lemma calls_sync_failed [simp]: "calls (fst (sync_failed r e w s)) = calls w"
  by (simp add: sync_failed_def)

lemma sync_record_truthy_calls:
  assumes "truthy (dict_get r ''uid'')"
  shows "\<exists>q qs. calls (fst (sync_record p c (w, s) r)) = calls w @ q # qs"
proof -
  obtain res w1 where chk: "check_if_exists p c w (dict_get r ''uid'') = (res, w1)"
    by (cases "check_if_exists p c w (dict_get r ''uid'')") auto
  from calls_check_if_exists [of p c w "dict_get r ''uid''"] chk
  obtain q where q: "calls w1 = calls w @ [q]" by auto
  show ?thesis
  proof (cases res)
    case (Inl e)
    with assms chk q show ?thesis by (simp add: sync_record_def)
  next
    case (Inr page)
    show ?thesis
    proof (cases "obj_truthy page")
      case True
      let ?w2 = "logger INFO [Lit ''Updating existing record: '', Lit (py_str (dict_get r ''uid''))] w1"
      obtain res3 w3 where u: "update_page p c ?w2 page r = (res3, w3)"
        by (cases "update_page p c ?w2 page r") auto
      from calls_update_page [of p c ?w2 page r] u q
      obtain q' where "calls w3 = calls w @ [q, q']" by auto
      with assms chk Inr True u show ?thesis
        by (cases res3) (simp_all add: sync_record_def)
    next
      case False
      let ?w2 = "logger INFO [Lit ''Creating new record: '', Lit (py_str (dict_get r ''uid''))] w1"
      obtain res3 w3 where u: "create_page p c ?w2 r = (res3, w3)"
        by (cases "create_page p c ?w2 r") auto
      from calls_create_page [of p c ?w2 r] u q
      obtain q' where "calls w3 = calls w @ [q, q']" by auto
      with assms chk Inr False u show ?thesis
        by (cases res3) (simp_all add: sync_record_def)
    qed
  qed
qed

text \<open>
  C1: processing one record raises exactly one of \<open>created\<close>, \<open>updated\<close>, \<open>errors\<close>, by
  exactly 1, and \<open>error_details\<close> grows by one entry exactly when \<open>errors\<close> does. So
  the summary \<^verbatim>\<open>sync_from_database\<close> returns has
  \<open>created + updated + errors\<close> equal to the number of records, and as many
  \<open>error_details\<close> as \<open>errors\<close>.
\<close>

theorem sync_from_database_counts:
  "(let s' = snd (sync_record p c (w, s) r) in
      (created s', updated s', errors s') \<in>
         {(created s + 1, updated s, errors s),
          (created s, updated s + 1, errors s),
          (created s, updated s, errors s + 1)}
      \<and> length (error_details s') + errors s = length (error_details s) + errors s')
   \<and> (let t = fst (sync_from_database p c w records) in
        created t + updated t + errors t = length records
        \<and> length (error_details t) = errors t)"
proof (intro conjI)
  show "let s' = snd (sync_record p c (w, s) r) in
      (created s', updated s', errors s') \<in>
         {(created s + 1, updated s, errors s),
          (created s, updated s + 1, errors s),
          (created s, updated s, errors s + 1)}
      \<and> length (error_details s') + errors s = length (error_details s) + errors s'"
    using sync_record_cases [of p c w s r] by (auto simp: Let_def)
next
  let ?s0 = "\<lparr>created = 0, updated = 0, errors = 0, error_details = []\<rparr>"
  obtain w1 s1 where l: "sync_loop p c (w, ?s0) records = (w1, s1)"
    by (cases "sync_loop p c (w, ?s0) records") auto
  from sync_loop_counts [OF l]
  have "created s1 + updated s1 + errors s1 = length records
      \<and> length (error_details s1) = errors s1" by simp
  with l show "let t = fst (sync_from_database p c w records) in
        created t + updated t + errors t = length records
        \<and> length (error_details t) = errors t"
    by (simp add: sync_from_database_def Let_def)
qed

text \<open>
  C5: for a record whose \<open>uid\<close> is missing or \<^verbatim>\<open>None\<close>, the loop body makes no
  HTTP call at all, raises \<open>errors\<close> by exactly 1, appends the record with the message
  \<open>Missing UID\<close> to \<open>error_details\<close>, and leaves \<open>created\<close> and \<open>updated\<close> as they
  were.
\<close>

theorem sync_record_missing_uid:
  assumes "map_of r ''uid'' = None \<or> map_of r ''uid'' = Some VNone"
  shows "case sync_record p c (w, s) r of
           (w', s') \<Rightarrow>
             calls w' = calls w
             \<and> errors s' = errors s + 1
             \<and> error_details s' = error_details s @ [(r, ''Missing UID'')]
             \<and> created s' = created s \<and> updated s' = updated s"
proof -
  from assms have "\<not> truthy (dict_get r ''uid'')"
    by (auto simp: dict_get_def)
  then show ?thesis by (simp add: sync_record_falsy)
qed

text \<open>
  C10: a record whose \<open>uid\<close> is the empty string is handled like one without \<open>uid\<close>:
  no HTTP call, one more error, the message \<open>Missing UID\<close>. The test is truthiness: the
  loop body makes no HTTP call exactly when the \<open>uid\<close> value is falsy.
\<close>

theorem sync_record_empty_uid:
  "(map_of r ''uid'' = Some (VStr '''') \<longrightarrow>
      (case sync_record p c (w, s) r of
         (w', s') \<Rightarrow>
           calls w' = calls w
           \<and> errors s' = errors s + 1
           \<and> error_details s' = error_details s @ [(r, ''Missing UID'')]
           \<and> created s' = created s \<and> updated s' = updated s))
   \<and> (calls (fst (sync_record p c (w, s) r)) = calls w
        \<longleftrightarrow> \<not> truthy (dict_get r ''uid''))"
proof (intro conjI impI)
  assume "map_of r ''uid'' = Some (VStr '''')"
  then have "\<not> truthy (dict_get r ''uid'')" by (simp add: dict_get_def)
  then show "case sync_record p c (w, s) r of
         (w', s') \<Rightarrow>
           calls w' = calls w
           \<and> errors s' = errors s + 1
           \<and> error_details s' = error_details s @ [(r, ''Missing UID'')]
           \<and> created s' = created s \<and> updated s' = updated s"
    by (simp add: sync_record_falsy)
next
  show "calls (fst (sync_record p c (w, s) r)) = calls w
        \<longleftrightarrow> \<not> truthy (dict_get r ''uid'')"
  proof (cases "truthy (dict_get r ''uid'')")
    case True
    from sync_record_truthy_calls [OF True, of p c w s]
    show ?thesis using True by auto
  next
    case False
    then show ?thesis by (simp add: sync_record_falsy)
  qed
qed

lemma sync_record_check_raises:
  assumes "truthy (dict_get r ''uid'')"
    and "fst (check_if_exists p c w (dict_get r ''uid'')) = Inl e"
  shows "\<exists>w'. sync_record p c (w, s) r =
           (w', s\<lparr>errors := errors s + 1,
                  error_details := error_details s @ [(r, exn_str e)]\<rparr>)"
proof -
  obtain res w1 where chk: "check_if_exists p c w (dict_get r ''uid'') = (res, w1)"
    by (cases "check_if_exists p c w (dict_get r ''uid'')") auto
  with assms show ?thesis
    by (simp add: sync_record_def sync_failed_def)
qed

lemma sync_record_update_raises:
  assumes "truthy (dict_get r ''uid'')"
    and "check_if_exists p c w (dict_get r ''uid'') = (Inr page, w1)"
    and "obj_truthy page"
    and "fst (update_page p c
           (logger INFO [Lit ''Updating existing record: '',
                         Lit (py_str (dict_get r ''uid''))] w1) page r) = Inl e"
  shows "\<exists>w'. sync_record p c (w, s) r =
           (w', s\<lparr>errors := errors s + 1,
                  error_details := error_details s @ [(r, exn_str e)]\<rparr>)"
proof -
  let ?w2 = "logger INFO [Lit ''Updating existing record: '',
                         Lit (py_str (dict_get r ''uid''))] w1"
  obtain res w3 where u: "update_page p c ?w2 page r = (res, w3)"
    by (cases "update_page p c ?w2 page r") auto
  with assms show ?thesis
    by (simp add: sync_record_def sync_failed_def)
qed

lemma sync_record_create_raises:
  assumes "truthy (dict_get r ''uid'')"
    and "check_if_exists p c w (dict_get r ''uid'') = (Inr page, w1)"
    and "\<not> obj_truthy page"
    and "fst (create_page p c
           (logger INFO [Lit ''Creating new record: '',
                         Lit (py_str (dict_get r ''uid''))] w1) r) = Inl e"
  shows "\<exists>w'. sync_record p c (w, s) r =
           (w', s\<lparr>errors := errors s + 1,
                  error_details := error_details s @ [(r, exn_str e)]\<rparr>)"
proof -
  let ?w2 = "logger INFO [Lit ''Creating new record: '',
                         Lit (py_str (dict_get r ''uid''))] w1"
  obtain res w3 where u: "create_page p c ?w2 r = (res, w3)"
    by (cases "create_page p c ?w2 r") auto
  with assms show ?thesis
    by (simp add: sync_record_def sync_failed_def)
qed

text \<open>
  C6: let the records \<open>pre\<close> be processed, giving the summary \<open>s0\<close>, and let the
  existence check, the update or the create raise \<open>e\<close> for the next record \<open>r\<close>. Then
  the loop body turns \<open>s0\<close> into \<open>s0\<close> with \<open>errors\<close> one higher and
  \<open>(r, str(e))\<close> appended to \<open>error_details\<close>, and nothing else changed; the loop
  goes on with the remaining records \<open>post\<close> from that summary, and every one of them is
  counted in the final summary.
\<close>

theorem sync_record_exception:
  assumes uid: "truthy (dict_get r ''uid'')"
    and before: "sync_loop p c ws pre = (w0, s0)"
    and raises:
      "fst (check_if_exists p c w0 (dict_get r ''uid'')) = Inl e
       \<or> (\<exists>page w1.
             check_if_exists p c w0 (dict_get r ''uid'') = (Inr page, w1)
             \<and> obj_truthy page
             \<and> fst (update_page p c
                  (logger INFO [Lit ''Updating existing record: '',
                                Lit (py_str (dict_get r ''uid''))] w1) page r) = Inl e)
       \<or> (\<exists>page w1.
             check_if_exists p c w0 (dict_get r ''uid'') = (Inr page, w1)
             \<and> \<not> obj_truthy page
             \<and> fst (create_page p c
                  (logger INFO [Lit ''Creating new record: '',
                                Lit (py_str (dict_get r ''uid''))] w1) r) = Inl e)"
  shows "\<exists>w'.
           sync_record p c (w0, s0) r =
             (w', s0\<lparr>errors := errors s0 + 1,
                     error_details := error_details s0 @ [(r, exn_str e)]\<rparr>)
           \<and> sync_loop p c ws (pre @ r # post) =
               sync_loop p c
                 (w', s0\<lparr>errors := errors s0 + 1,
                         error_details := error_details s0 @ [(r, exn_str e)]\<rparr>) post
           \<and> (let sf = snd (sync_loop p c ws (pre @ r # post)) in
                created sf + updated sf + errors sf =
                  created s0 + updated s0 + errors s0 + 1 + length post)"
proof -
  let ?s1 = "s0\<lparr>errors := errors s0 + 1,
                 error_details := error_details s0 @ [(r, exn_str e)]\<rparr>"
  from uid raises obtain w' where step: "sync_record p c (w0, s0) r = (w', ?s1)"
    using sync_record_check_raises [of r p c w0 e s0]
      sync_record_update_raises [of r p c w0 _ _ e s0]
      sync_record_create_raises [of r p c w0 _ _ e s0]
    by blast
  have cont: "sync_loop p c ws (pre @ r # post) = sync_loop p c (w', ?s1) post"
    using before step by (simp add: sync_loop_append)
  obtain wf sf where fin: "sync_loop p c (w', ?s1) post = (wf, sf)"
    by (cases "sync_loop p c (w', ?s1) post") auto
  from sync_loop_counts [OF fin]
  have "created sf + updated sf + errors sf =
      created s0 + updated s0 + errors s0 + 1 + length post" by simp
  with cont fin step show ?thesis by (simp add: Let_def)
qed

section \<open>Choosing a connector\<close>

lemma get_connector_names:
  "get_connector p (Some ''postgresql'') = Inr PostgreSQLConnector"
  "get_connector p (Some ''mysql'') = Inr MySQLConnector"
  "get_connector p (Some ''mongodb'') = Inr MongoDBConnector"
  "get_connector p (Some ''sqlite'') = Inr SQLiteConnector"
  by (simp_all add: get_connector_def str_or_def connectors_def)

lemma map_of_connectors_None:
  "t \<notin> {''postgresql'', ''mysql'', ''mongodb'', ''sqlite''} \<Longrightarrow> map_of connectors t = None"
  by (simp add: connectors_def)

lemma get_connector_other:
  "s \<noteq> [] \<Longrightarrow> s \<notin> {''postgresql'', ''mysql'', ''mongodb'', ''sqlite''} \<Longrightarrow>
   get_connector p (Some s) = Inl (Exn ValueError (''Unsupported database type: '' @ s))"
  by (simp add: get_connector_def str_or_def map_of_connectors_None)

lemma get_connector_env:
  "get_connector p None = get_connector p (Some '''')"
  "get_connector p (Some '''') =
     (case map_of connectors (getenv_default p ''DB_TYPE'' ''postgresql'') of
        None \<Rightarrow> Inl (Exn ValueError (''Unsupported database type: '' @
                  getenv_default p ''DB_TYPE'' ''postgresql''))
      | Some k \<Rightarrow> Inr k)"
  by (simp_all add: get_connector_def str_or_def)

lemma get_connector_unset:
  "getenv p ''DB_TYPE'' = None \<Longrightarrow> get_connector p None = Inr PostgreSQLConnector"
  by (simp add: get_connector_def str_or_def getenv_default_def connectors_def)

text \<open>
  C7, as the code has it: a selector argument among the four names gives the connector
  of that name, and any other non-empty argument raises \<^verbatim>\<open>ValueError\<close>. Without an
  argument, or with an empty one, the selector is the environment variable
  \<^verbatim>\<open>DB_TYPE\<close>: unset, it gives the PostgreSQL connector; set, its value is looked up
  in the table, and a value that is not there raises \<^verbatim>\<open>ValueError\<close>.
\<close>

theorem get_connector_selector:
  "(s \<in> {''postgresql'', ''mysql'', ''mongodb'', ''sqlite''} \<longrightarrow>
      map_of connectors s \<noteq> None \<and> get_connector p (Some s) = Inr (the (map_of connectors s)))
   \<and> (s \<noteq> [] \<and> s \<notin> {''postgresql'', ''mysql'', ''mongodb'', ''sqlite''} \<longrightarrow>
        get_connector p (Some s) =
          Inl (Exn ValueError (''Unsupported database type: '' @ s)))
   \<and> get_connector p (Some '''') = get_connector p None
   \<and> (getenv p ''DB_TYPE'' = None \<longrightarrow> get_connector p None = Inr PostgreSQLConnector)
   \<and> (getenv p ''DB_TYPE'' = Some s \<longrightarrow>
        get_connector p None =
          (case map_of connectors s of
             None \<Rightarrow> Inl (Exn ValueError (''Unsupported database type: '' @ s))
           | Some k \<Rightarrow> Inr k))"
proof (intro conjI impI)
  assume "s \<in> {''postgresql'', ''mysql'', ''mongodb'', ''sqlite''}"
  then show "map_of connectors s \<noteq> None"
    by (auto simp: connectors_def)
next
  assume "s \<in> {''postgresql'', ''mysql'', ''mongodb'', ''sqlite''}"
  then show "get_connector p (Some s) = Inr (the (map_of connectors s))"
    by (auto simp: get_connector_names connectors_def)
next
  assume "s \<noteq> [] \<and> s \<notin> {''postgresql'', ''mysql'', ''mongodb'', ''sqlite''}"
  then show "get_connector p (Some s) =
          Inl (Exn ValueError (''Unsupported database type: '' @ s))"
    by (simp add: get_connector_other)
next
  show "get_connector p (Some '''') = get_connector p None"
    by (rule get_connector_env(1) [symmetric])
next
  assume "getenv p ''DB_TYPE'' = None"
  then show "get_connector p None = Inr PostgreSQLConnector"
    by (rule get_connector_unset)
next
  assume "getenv p ''DB_TYPE'' = Some s"
  then show "get_connector p None =
          (case map_of connectors s of
             None \<Rightarrow> Inl (Exn ValueError (''Unsupported database type: '' @ s))
           | Some k \<Rightarrow> Inr k)"
  proof -
    assume "getenv p ''DB_TYPE'' = Some s"
    then have d: "getenv_default p ''DB_TYPE'' ''postgresql'' = s"
      by (simp add: getenv_default_def)
    show ?thesis
      unfolding get_connector_env d by (rule refl)
  qed
qed

lemma get_connector_mysql_platform:
  "get_connector mysql_platform None = Inr MySQLConnector"
  by (simp add: get_connector_def str_or_def getenv_default_def mysql_platform_def
      sample_platform_def connectors_def)

lemma get_connector_empty_selector:
  "get_connector sample_platform (Some '''') = Inr PostgreSQLConnector"
  by (simp add: get_connector_def str_or_def getenv_default_def sample_platform_def
      connectors_def)

text \<open>
  With \<^verbatim>\<open>DB_TYPE=mysql\<close> in the environment, the factory called without a selector
  gives the MySQL connector, not the PostgreSQL one; and the empty selector, which is not
  one of the four names, gives a connector instead of raising.
\<close>

theorem get_connector_counterexample:
  "get_connector mysql_platform None = Inr MySQLConnector
   \<and> get_connector mysql_platform None \<noteq> Inr PostgreSQLConnector
   \<and> '''' \<notin> {''postgresql'', ''mysql'', ''mongodb'', ''sqlite''}
   \<and> get_connector sample_platform (Some '''') = Inr PostgreSQLConnector"
  by (simp add: get_connector_mysql_platform get_connector_empty_selector)

section \<open>Missing drivers\<close>

text \<open>
  Where \<^verbatim>\<open>sqlite3\<close> cannot be imported, \<^verbatim>\<open>SQLiteConnector.fetch_records\<close>
  raises the \<^verbatim>\<open>ImportError\<close> and logs nothing.
\<close>

theorem fetch_records_sqlite_counterexample:
  "import_error no_driver_platform ''sqlite3'' = Some (''No module named '' @ quoted ''sqlite3'')
   \<and> fetch_records no_driver_platform empty_world SQLiteConnector =
       (Inl (Exn ImportError (''No module named '' @ quoted ''sqlite3'')), empty_world)"
  by (simp add: no_driver_platform_def sample_platform_def)

text \<open>
  C8, as the code has it: for the PostgreSQL, MySQL and MongoDB connectors, a driver
  module that cannot be imported makes \<^verbatim>\<open>fetch_records\<close> log one error and return
  the empty list. The SQLite connector imports its module outside any \<^verbatim>\<open>try\<close>: there
  the \<^verbatim>\<open>ImportError\<close> leaves \<^verbatim>\<open>fetch_records\<close>, and nothing is logged.
\<close>

theorem fetch_records_driver_unavailable:
  "(import_error p ''psycopg2'' \<noteq> None \<or> import_error p ''psycopg2.extras'' \<noteq> None \<longrightarrow>
      fetch_records p w PostgreSQLConnector =
        (Inr [], logger ERROR
           [Lit ''psycopg2 not installed. Run: pip install psycopg2-binary''] w))
   \<and> (import_error p ''mysql.connector'' \<noteq> None \<longrightarrow>
        fetch_records p w MySQLConnector =
          (Inr [], logger ERROR
             [Lit (''mysql-connector-python not installed. '' @
                   ''Run: pip install mysql-connector-python'')] w))
   \<and> (import_error p ''pymongo'' \<noteq> None \<longrightarrow>
        fetch_records p w MongoDBConnector =
          (Inr [], logger ERROR
             [Lit ''pymongo not installed. Run: pip install pymongo''] w))
   \<and> (import_error p ''sqlite3'' = Some msg \<longrightarrow>
        fetch_records p w SQLiteConnector = (Inl (Exn ImportError msg), w))"
  by simp

section \<open>The exit status\<close>

lemma fst_fetch_records: "fst (fetch_records p w k) = fst (fetch_records p w' k)"
  by (cases k) (simp_all split: option.splits sum.splits)

lemma calls_fetch_records [simp]: "calls (snd (fetch_records p w k)) = calls w"
  by (cases k) (simp_all split: option.splits sum.splits)

lemma stdout_fetch_records [simp]: "stdout (snd (fetch_records p w k)) = stdout w"
  by (cases k) (simp_all split: option.splits sum.splits)

lemma check_if_exists_calls_only:
  "calls w = calls w' \<Longrightarrow>
   fst (check_if_exists p c w uid) = fst (check_if_exists p c w' uid)
   \<and> calls (snd (check_if_exists p c w uid)) = calls (snd (check_if_exists p c w' uid))"
  by (simp add: check_if_exists_def requests_call_def check_failed_def Let_def
      split: http_outcome.splits option.splits sum.splits)

lemma update_page_calls_only:
  "calls w = calls w' \<Longrightarrow>
   fst (update_page p c w page r) = fst (update_page p c w' page r)
   \<and> calls (snd (update_page p c w page r)) = calls (snd (update_page p c w' page r))"
  by (simp add: update_page_def requests_call_def update_failed_def Let_def
      split: http_outcome.splits option.splits sum.splits)

lemma create_page_calls_only:
  "calls w = calls w' \<Longrightarrow>
   fst (create_page p c w r) = fst (create_page p c w' r)
   \<and> calls (snd (create_page p c w r)) = calls (snd (create_page p c w' r))"
  by (simp add: create_page_def requests_call_def create_failed_def Let_def
      split: http_outcome.splits option.splits sum.splits)

lemma sync_record_calls_only:
  assumes "calls w = calls w'"
  shows "snd (sync_record p c (w, s) r) = snd (sync_record p c (w', s) r)
     \<and> calls (fst (sync_record p c (w, s) r)) = calls (fst (sync_record p c (w', s) r))"
proof (cases "truthy (dict_get r ''uid'')")
  case False
  with assms show ?thesis by (simp add: sync_record_falsy)
next
  case True
  let ?uid = "dict_get r ''uid''"
  obtain res w1 where a: "check_if_exists p c w ?uid = (res, w1)"
    by (cases "check_if_exists p c w ?uid") auto
  obtain res' w1' where b: "check_if_exists p c w' ?uid = (res', w1')"
    by (cases "check_if_exists p c w' ?uid") auto
  from check_if_exists_calls_only [OF assms, of p c ?uid] a b
  have eq: "res' = res" "calls w1 = calls w1'" by simp_all
  show ?thesis
  proof (cases res)
    case (Inl e)
    with True a b eq show ?thesis by (simp add: sync_record_def sync_failed_def)
  next
    case (Inr page)
    show ?thesis
    proof (cases "obj_truthy page")
      case yes: True
      let ?m = "[Lit ''Updating existing record: '', Lit (py_str ?uid)]"
      have c: "calls (logger INFO ?m w1) = calls (logger INFO ?m w1')"
        using eq by simp
      obtain r3 w3 where u: "update_page p c (logger INFO ?m w1) page r = (r3, w3)"
        by (cases "update_page p c (logger INFO ?m w1) page r") auto
      obtain r3' w3' where u': "update_page p c (logger INFO ?m w1') page r = (r3', w3')"
        by (cases "update_page p c (logger INFO ?m w1') page r") auto
      from update_page_calls_only [OF c, of p c page r] u u'
      have "r3' = r3" "calls w3 = calls w3'" by simp_all
      with True a b eq Inr yes u u' show ?thesis
        by (cases r3) (simp_all add: sync_record_def sync_failed_def)
    next
      case no: False
      let ?m = "[Lit ''Creating new record: '', Lit (py_str ?uid)]"
      have c: "calls (logger INFO ?m w1) = calls (logger INFO ?m w1')"
        using eq by simp
      obtain r3 w3 where u: "create_page p c (logger INFO ?m w1) r = (r3, w3)"
        by (cases "create_page p c (logger INFO ?m w1) r") auto
      obtain r3' w3' where u': "create_page p c (logger INFO ?m w1') r = (r3', w3')"
        by (cases "create_page p c (logger INFO ?m w1') r") auto
      from create_page_calls_only [OF c, of p c r] u u'
      have "r3' = r3" "calls w3 = calls w3'" by simp_all
      with True a b eq Inr no u u' show ?thesis
        by (cases r3) (simp_all add: sync_record_def sync_failed_def)
    qed
  qed
qed

lemma sync_loop_calls_only:
  "calls w = calls w' \<Longrightarrow>
   snd (sync_loop p c (w, s) rs) = snd (sync_loop p c (w', s) rs)
   \<and> calls (fst (sync_loop p c (w, s) rs)) = calls (fst (sync_loop p c (w', s) rs))"
proof (induction rs arbitrary: w w' s)
  case Nil
  then show ?case by simp
next
  case (Cons r rs)
  obtain w1 s1 where a: "sync_record p c (w, s) r = (w1, s1)"
    by (cases "sync_record p c (w, s) r") auto
  obtain w1' s1' where b: "sync_record p c (w', s) r = (w1', s1')"
    by (cases "sync_record p c (w', s) r") auto
  from sync_record_calls_only [OF Cons.prems, of p c s r] a b
  have "s1' = s1" "calls w1 = calls w1'" by simp_all
  with Cons.IH [of w1 w1' s1] a b show ?case by simp
qed

lemma sync_from_database_calls_only:
  "calls w = calls w' \<Longrightarrow>
   fst (sync_from_database p c w rs) = fst (sync_from_database p c w' rs)"
  using sync_loop_calls_only
    [of w w' p c "\<lparr>created = 0, updated = 0, errors = 0, error_details = []\<rparr>" rs]
  by (auto simp: sync_from_database_def split: prod.splits)

lemma snd_fatal [simp]: "snd (fatal e w) = 1"
  by (simp add: fatal_def)

lemma main_init_fails:
  "NotionDatabaseSync_init p None None = Inl e \<Longrightarrow> snd (main p w) = 1"
  by (simp add: main_def)

lemma main_connector_fails:
  "NotionDatabaseSync_init p None None = Inr c \<Longrightarrow>
   get_connector p (Some (getenv_default p ''DB_TYPE'' ''postgresql'')) = Inl e \<Longrightarrow>
   snd (main p w) = 1"
  by (simp add: main_def Let_def)

lemma main_fetch_fails:
  assumes "NotionDatabaseSync_init p None None = Inr c"
    and "get_connector p (Some (getenv_default p ''DB_TYPE'' ''postgresql'')) = Inr conn"
    and "fst (fetch_records p w conn) = Inl e"
  shows "snd (main p w) = 1"
proof -
  let ?w3 = "logger INFO [Lit ''Fetching data from internal database...'']
      (logger INFO [Lit ''Connecting to '', Lit (getenv_default p ''DB_TYPE'' ''postgresql''),
                    Lit '' database...'']
        (logger INFO [Lit ''Initializing Notion sync client...''] w))"
  obtain res w4 where f: "fetch_records p ?w3 conn = (res, w4)"
    by (cases "fetch_records p ?w3 conn") auto
  from fst_fetch_records [of p ?w3 conn w] f assms(3) have "res = Inl e" by simp
  with assms(1,2) f show ?thesis by (simp add: main_def Let_def)
qed

lemma main_no_records:
  assumes "NotionDatabaseSync_init p None None = Inr c"
    and "get_connector p (Some (getenv_default p ''DB_TYPE'' ''postgresql'')) = Inr conn"
    and "fst (fetch_records p w conn) = Inr []"
  shows "snd (main p w) = 0 \<and> calls (fst (main p w)) = calls w
     \<and> stdout (fst (main p w)) = stdout w
     \<and> last (log (fst (main p w))) = (INFO, [Lit ''No records to sync''])"
proof -
  let ?w3 = "logger INFO [Lit ''Fetching data from internal database...'']
      (logger INFO [Lit ''Connecting to '', Lit (getenv_default p ''DB_TYPE'' ''postgresql''),
                    Lit '' database...'']
        (logger INFO [Lit ''Initializing Notion sync client...''] w))"
  obtain res w4 where f: "fetch_records p ?w3 conn = (res, w4)"
    by (cases "fetch_records p ?w3 conn") auto
  from fst_fetch_records [of p ?w3 conn w] f assms(3) have r: "res = Inr []" by simp
  from calls_fetch_records [of p ?w3 conn] f have c: "calls w4 = calls w" by simp
  from stdout_fetch_records [of p ?w3 conn] f have o: "stdout w4 = stdout w" by simp
  from assms(1,2) f r c o show ?thesis by (simp add: main_def Let_def)
qed

lemma calls_print_all [simp]: "calls (print_all ls w) = calls w"
  by (induction ls arbitrary: w) (simp_all add: print_def)

lemma main_syncs:
  assumes "NotionDatabaseSync_init p None None = Inr c"
    and "get_connector p (Some (getenv_default p ''DB_TYPE'' ''postgresql'')) = Inr conn"
    and "fst (fetch_records p w conn) = Inr records"
    and "records \<noteq> []"
  shows "snd (main p w) =
     (if 0 < errors (fst (sync_from_database p c w records)) then 1 else 0)"
proof -
  let ?w3 = "logger INFO [Lit ''Fetching data from internal database...'']
      (logger INFO [Lit ''Connecting to '', Lit (getenv_default p ''DB_TYPE'' ''postgresql''),
                    Lit '' database...'']
        (logger INFO [Lit ''Initializing Notion sync client...''] w))"
  obtain res w4 where f: "fetch_records p ?w3 conn = (res, w4)"
    by (cases "fetch_records p ?w3 conn") auto
  from fst_fetch_records [of p ?w3 conn w] f assms(3) have r: "res = Inr records" by simp
  from calls_fetch_records [of p ?w3 conn] f have c: "calls w4 = calls w" by simp
  let ?w6 = "logger INFO [Lit ''Syncing to Notion...'']
      (logger INFO [Lit ''Found '', Lit (string_of_nat (length records)),
                    Lit '' records to sync''] w4)"
  have "calls ?w6 = calls w" using c by simp
  from sync_from_database_calls_only [OF this, of p c records]
  have s: "fst (sync_from_database p c ?w6 records) = fst (sync_from_database p c w records)" .
  obtain sm w7 where y: "sync_from_database p c ?w6 records = (sm, w7)"
    by (cases "sync_from_database p c ?w6 records") auto
  with s have "sm = fst (sync_from_database p c w records)" by simp
  with assms(1,2,4) f r y show ?thesis by (simp add: main_def Let_def)
qed

lemma sync_from_database_empty: "errors (fst (sync_from_database p c w [])) = 0"
  by (simp add: sync_from_database_def)

text \<open>
  C9: \<^verbatim>\<open>main\<close> ends the process with a status other than 0 exactly when building
  the client, choosing the connector or fetching the records raises, or the summary of
  the sync has \<open>errors > 0\<close>. When the fetched list is empty, \<^verbatim>\<open>main\<close> makes no HTTP
  call, prints nothing, logs \<open>No records to sync\<close> last, and the status is 0.
\<close>

theorem main_exit_status:
  "(snd (main p w) \<noteq> 0 \<longleftrightarrow>
      (\<exists>e. NotionDatabaseSync_init p None None = Inl e)
    \<or> (\<exists>c e. NotionDatabaseSync_init p None None = Inr c
          \<and> get_connector p (Some (getenv_default p ''DB_TYPE'' ''postgresql'')) = Inl e)
    \<or> (\<exists>c conn e. NotionDatabaseSync_init p None None = Inr c
          \<and> get_connector p (Some (getenv_default p ''DB_TYPE'' ''postgresql'')) = Inr conn
          \<and> fst (fetch_records p w conn) = Inl e)
    \<or> (\<exists>c conn records. NotionDatabaseSync_init p None None = Inr c
          \<and> get_connector p (Some (getenv_default p ''DB_TYPE'' ''postgresql'')) = Inr conn
          \<and> fst (fetch_records p w conn) = Inr records
          \<and> 0 < errors (fst (sync_from_database p c w records))))
   \<and> (\<forall>c conn. NotionDatabaseSync_init p None None = Inr c
          \<and> get_connector p (Some (getenv_default p ''DB_TYPE'' ''postgresql'')) = Inr conn
          \<and> fst (fetch_records p w conn) = Inr [] \<longrightarrow>
        snd (main p w) = 0 \<and> calls (fst (main p w)) = calls w
        \<and> stdout (fst (main p w)) = stdout w
        \<and> last (log (fst (main p w))) = (INFO, [Lit ''No records to sync'']))"
proof (intro conjI allI impI)
  let ?gc = "get_connector p (Some (getenv_default p ''DB_TYPE'' ''postgresql''))"
  show "snd (main p w) \<noteq> 0 \<longleftrightarrow>
      (\<exists>e. NotionDatabaseSync_init p None None = Inl e)
    \<or> (\<exists>c e. NotionDatabaseSync_init p None None = Inr c \<and> ?gc = Inl e)
    \<or> (\<exists>c conn e. NotionDatabaseSync_init p None None = Inr c \<and> ?gc = Inr conn
          \<and> fst (fetch_records p w conn) = Inl e)
    \<or> (\<exists>c conn records. NotionDatabaseSync_init p None None = Inr c \<and> ?gc = Inr conn
          \<and> fst (fetch_records p w conn) = Inr records
          \<and> 0 < errors (fst (sync_from_database p c w records)))"
  proof (cases "NotionDatabaseSync_init p None None")
    case (Inl e)
    then show ?thesis by (simp add: main_init_fails)
  next
    case c: (Inr c)
    show ?thesis
    proof (cases ?gc)
      case (Inl e)
      with c show ?thesis by (simp add: main_connector_fails)
    next
      case k: (Inr conn)
      show ?thesis
      proof (cases "fst (fetch_records p w conn)")
        case (Inl e)
        with c k show ?thesis by (simp add: main_fetch_fails)
      next
        case r: (Inr records)
        show ?thesis
        proof (cases "records = []")
          case True
          with c k r main_no_records [of p c conn w] show ?thesis
            by (simp add: sync_from_database_empty)
        next
          case False
          with c k r main_syncs [of p c conn w records] show ?thesis by simp
        qed
      qed
    qed
  qed
next
  fix c conn
  assume "NotionDatabaseSync_init p None None = Inr c
          \<and> get_connector p (Some (getenv_default p ''DB_TYPE'' ''postgresql'')) = Inr conn
          \<and> fst (fetch_records p w conn) = Inr []"
  then have "snd (main p w) = 0 \<and> calls (fst (main p w)) = calls w
     \<and> stdout (fst (main p w)) = stdout w
     \<and> last (log (fst (main p w))) = (INFO, [Lit ''No records to sync''])"
    using main_no_records [of p c conn w] by blast
  then show "snd (main p w) = 0" "calls (fst (main p w)) = calls w"
    "stdout (fst (main p w)) = stdout w"
    "last (log (fst (main p w))) = (INFO, [Lit ''No records to sync''])"
    by simp_all
qed

end
